theory Spec2Isabelle
  imports Main "HOL-Library.Word"
begin

section \<open>Flask-Humanize: the extension adapter of \<^verbatim>\<open>flask_humanize/__init__.py\<close>\<close>

subsection \<open>Python values and exceptions\<close>

text \<open>
  Objects are known by identity (a reference). The values that flow through the adapter are
  \<^verbatim>\<open>None\<close>, text strings (sequences of code points), byte strings
  (\<^verbatim>\<open>bytes\<close>), byte arrays (\<^verbatim>\<open>bytearray\<close>: not an instance of \<^verbatim>\<open>bytes\<close>, but
  with a \<^verbatim>\<open>decode\<close> method of its own), integers and opaque objects (an extension
  instance, a module).
\<close>

type_synonym ref = nat

datatype pyval =
    PNone
  | PText "nat list"
  | PBytes "8 word list"
  | PByteArray "8 word list"
  | PInt int
  | PObj ref

text \<open>
  Exceptions are values; the constructor is the class the exception was raised with, the
  argument its message (or the missing key or attribute). The last three derive from
  \<^verbatim>\<open>BaseException\<close> only: they are not instances of \<^verbatim>\<open>Exception\<close>, and
  \<^verbatim>\<open>except Exception\<close> does not catch them. \<open>is_Exception e\<close> is
  \<^verbatim>\<open>isinstance(e, Exception)\<close>.
\<close>

datatype exn =
    Exception string
  | ValueError string
  | AttributeError string
  | KeyError string
  | TypeError string
  | UnicodeDecodeError
  | SystemExit
  | KeyboardInterrupt
  | GeneratorExit

fun is_Exception :: "exn \<Rightarrow> bool" where
  "is_Exception SystemExit = False"
| "is_Exception KeyboardInterrupt = False"
| "is_Exception GeneratorExit = False"
| "is_Exception _ = True"

text \<open>A text literal of the source, as code points.\<close>

definition str :: "string \<Rightarrow> pyval" where
  "str s = PText (map of_char s)"

definition quoted :: "string \<Rightarrow> string" where
  "quoted s = [CHR 0x27] @ s @ [CHR 0x27]"

subsection \<open>Text coercion\<close>

text \<open>
  \<^verbatim>\<open>bytes.decode('utf-8')\<close> with the default strict error handling: shortest-form
  sequences only, no surrogates, nothing above U+10FFFF; \<open>None\<close> where Python raises
  \<^verbatim>\<open>UnicodeDecodeError\<close>.
\<close>

definition cont :: "8 word \<Rightarrow> bool" where
  "cont b \<longleftrightarrow> 0x80 \<le> b \<and> b \<le> 0xBF"

definition tail6 :: "8 word \<Rightarrow> nat" where
  "tail6 b = unat b - 0x80"

fun utf8_decode :: "8 word list \<Rightarrow> nat list option" where
  "utf8_decode [] = Some []"
| "utf8_decode (b0 # bs) =
     (if b0 < 0x80 then map_option ((#) (unat b0)) (utf8_decode bs)
      else if 0xC2 \<le> b0 \<and> b0 \<le> 0xDF then
        (case bs of
           b1 # r \<Rightarrow>
             if cont b1
             then map_option ((#) ((unat b0 - 0xC0) * 64 + tail6 b1)) (utf8_decode r)
             else None
         | _ \<Rightarrow> None)
      else if 0xE0 \<le> b0 \<and> b0 \<le> 0xEF then
        (case bs of
           b1 # b2 # r \<Rightarrow>
             if (if b0 = 0xE0 then 0xA0 else 0x80) \<le> b1
                \<and> b1 \<le> (if b0 = 0xED then 0x9F else 0xBF) \<and> cont b2
             then map_option ((#) ((unat b0 - 0xE0) * 4096 + tail6 b1 * 64 + tail6 b2))
                    (utf8_decode r)
             else None
         | _ \<Rightarrow> None)
      else if 0xF0 \<le> b0 \<and> b0 \<le> 0xF4 then
        (case bs of
           b1 # b2 # b3 # r \<Rightarrow>
             if (if b0 = 0xF0 then 0x90 else 0x80) \<le> b1
                \<and> b1 \<le> (if b0 = 0xF4 then 0x8F else 0xBF) \<and> cont b2 \<and> cont b3
             then map_option
                    ((#) ((unat b0 - 0xF0) * 262144 + tail6 b1 * 4096 + tail6 b2 * 64 + tail6 b3))
                    (utf8_decode r)
             else None
         | _ \<Rightarrow> None)
      else None)"

text \<open>
  Modelled from the spec: \<^verbatim>\<open>compat.text_type\<close>, the text type of the running Python
  (the module \<^verbatim>\<open>compat\<close> is not among the sources). \<open>is_text v\<close> is
  \<^verbatim>\<open>isinstance(v, compat.text_type)\<close>.
\<close>

fun is_text :: "pyval \<Rightarrow> bool" where
  "is_text (PText _) = True"
| "is_text _ = False"

fun is_bytes :: "pyval \<Rightarrow> bool" where
  "is_bytes (PBytes _) = True"
| "is_bytes _ = False"

text \<open>
  \<^verbatim>\<open>value.decode('utf-8')\<close>: \<^verbatim>\<open>bytes\<close> and \<^verbatim>\<open>bytearray\<close> have the method
  (\<open>has_decode\<close>); on any other value the attribute lookup raises
  \<^verbatim>\<open>AttributeError\<close>.
\<close>

fun has_decode :: "pyval \<Rightarrow> bool" where
  "has_decode (PBytes _) = True"
| "has_decode (PByteArray _) = True"
| "has_decode _ = False"

fun decode :: "pyval \<Rightarrow> exn + pyval" where
  "decode (PBytes b) =
     (case utf8_decode b of None \<Rightarrow> Inl UnicodeDecodeError | Some t \<Rightarrow> Inr (PText t))"
| "decode (PByteArray b) =
     (case utf8_decode b of None \<Rightarrow> Inl UnicodeDecodeError | Some t \<Rightarrow> Inr (PText t))"
| "decode _ = Inl (AttributeError ''decode'')"

definition force_unicode :: "pyval \<Rightarrow> exn + pyval" where
  "force_unicode v = (if \<not> is_text v then decode v else Inr v)"

subsection \<open>The host application\<close>

text \<open>
  The host application as \<^verbatim>\<open>init_app\<close> uses it: the config store (a dict), the
  extension registry (an attribute that may be missing, hence the option), the template
  filters by name and the list of before-request hooks. The two hooks registered are bound
  methods of the adapter.
\<close>

datatype bound_method = Humanize_filter ref | Set_locale_hook ref

record app =
  config :: "string \<rightharpoonup> pyval"
  extensions :: "(string \<rightharpoonup> pyval) option"
  template_filters :: "string \<rightharpoonup> bound_method"
  before_request_funcs :: "bound_method list"

text \<open>\<^verbatim>\<open>dict.setdefault\<close> and \<^verbatim>\<open>dict[key]\<close>.\<close>

definition setdefault :: "(string \<rightharpoonup> pyval) \<Rightarrow> string \<Rightarrow> pyval \<Rightarrow> (string \<rightharpoonup> pyval)" where
  "setdefault d k v = (case d k of None \<Rightarrow> d(k \<mapsto> v) | Some _ \<Rightarrow> d)"

definition getitem :: "(string \<rightharpoonup> pyval) \<Rightarrow> string \<Rightarrow> exn + pyval" where
  "getitem d k = (case d k of None \<Rightarrow> Inl (KeyError k) | Some v \<Rightarrow> Inr v)"

text \<open>\<^verbatim>\<open>str.upper\<close> on the ASCII letters, which is all a config key holds.\<close>

definition upper_char :: "char \<Rightarrow> char" where
  "upper_char c =
     (if (97::nat) \<le> of_char c \<and> of_char c \<le> (122::nat)
      then char_of (of_char c - (32::nat)) else c)"

definition upper :: "string \<Rightarrow> string" where
  "upper s = map upper_char s"

definition self_name :: "string \<Rightarrow> string" where
  "self_name s = ''HUMANIZE_'' @ upper s"

definition default_config :: "(string \<times> pyval) list" where
  "default_config = [(''default_locale'', str ''en'')]"

text \<open>
  \<^verbatim>\<open>app_has_babel\<close> reads \<^verbatim>\<open>app.extensions\<close> with no guard: on an application
  without that attribute the read raises \<^verbatim>\<open>AttributeError\<close>.
\<close>

definition app_has_babel :: "app \<Rightarrow> exn + bool" where
  "app_has_babel a =
     (case extensions a of
        None \<Rightarrow> Inl (AttributeError ''extensions'')
      | Some reg \<Rightarrow>
          (let obj = (case reg ''babel'' of None \<Rightarrow> PNone | Some v \<Rightarrow> v)
           in Inr (obj \<noteq> PNone)))"

subsection \<open>The adapter\<close>

text \<open>
  \<^verbatim>\<open>init_app\<close>, statement by statement. An exception leaves the application as the
  statements before it made it, so the result pairs the outcome with the application.
\<close>

definition init_app :: "ref \<Rightarrow> app \<Rightarrow> (exn + unit) \<times> app" where
  "init_app self a =
     (let a1 = a\<lparr>config :=
                  fold (\<lambda>(k, v) c. setdefault c (self_name k) v) default_config (config a)\<rparr>
      in case app_has_babel a1 of
           Inl e \<Rightarrow> (Inl e, a1)
         | Inr has_babel \<Rightarrow>
             (case (if has_babel
                    then (case getitem (config a1) ''BABEL_DEFAULT_LOCALE'' of
                            Inl e \<Rightarrow> Inl e
                          | Inr default_locale \<Rightarrow>
                              if default_locale \<noteq> PNone
                              then Inr (a1\<lparr>config :=
                                     setdefault (config a1) (self_name ''default_locale'')
                                       default_locale\<rparr>)
                              else Inr a1)
                    else Inr a1) of
                Inl e \<Rightarrow> (Inl e, a1)
              | Inr a2 \<Rightarrow>
                  (let a3 = a2\<lparr>template_filters :=
                               (template_filters a2)(''humanize'' \<mapsto> Humanize_filter self)\<rparr>;
                       a4 = a3\<lparr>before_request_funcs :=
                               before_request_funcs a3 @ [Set_locale_hook self]\<rparr>;
                       a5 = (if extensions a4 = None
                             then a4\<lparr>extensions := Some Map.empty\<rparr> else a4);
                       reg = (case extensions a5 of None \<Rightarrow> Map.empty | Some r \<Rightarrow> r)
                   in (Inr (), a5\<lparr>extensions := Some (reg(''humanize'' \<mapsto> PObj self))\<rparr>))))"

text \<open>Registration run once per adapter of a list, each on the application the last one left.\<close>

fun init_apps :: "ref list \<Rightarrow> app \<Rightarrow> app" where
  "init_apps [] a = a"
| "init_apps (self # selfs) a = init_apps selfs (snd (init_app self a))"

text \<open>
  The adapter instance. A selector is a callable of no arguments; what it returns depends
  on the request being handled, so it is a function of that request, and it may raise.
  \<open>None\<close> is the class attribute's initial value.
\<close>

record 'r adapter =
  locale_selector_func :: "('r \<Rightarrow> exn + pyval) option"

definition new_adapter :: "'r adapter" where
  "new_adapter = \<lparr>locale_selector_func = None\<rparr>"

definition localeselector ::
  "'r adapter \<Rightarrow> ('r \<Rightarrow> exn + pyval) \<Rightarrow> ('r \<Rightarrow> exn + pyval) \<times> 'r adapter" where
  "localeselector self func = (func, self\<lparr>locale_selector_func := Some func\<rparr>)"

definition default_locale :: "app \<Rightarrow> exn + pyval" where
  "default_locale current_app = getitem (config current_app) ''HUMANIZE_DEFAULT_LOCALE''"

text \<open>
  \<^verbatim>\<open>__set_locale\<close>. The library's \<^verbatim>\<open>humanize.i18n.activate\<close> is a parameter: it takes
  the locale and the library's state and gives the new state, or raises.
\<close>

definition set_locale ::
  "(pyval \<Rightarrow> 'l \<Rightarrow> exn + 'l) \<Rightarrow> 'r adapter \<Rightarrow> app \<Rightarrow> 'r \<Rightarrow> 'l \<Rightarrow> exn + 'l" where
  "set_locale activate self current_app req lib =
     (case (case locale_selector_func self of
              None \<Rightarrow> default_locale current_app
            | Some func \<Rightarrow>
                (case func req of
                   Inl e \<Rightarrow> Inl e
                 | Inr locale \<Rightarrow>
                     if locale = PNone then default_locale current_app else Inr locale)) of
        Inl e \<Rightarrow> Inl e
      | Inr locale \<Rightarrow> activate locale lib)"

subsection \<open>The template filter\<close>

text \<open>
  The module \<^verbatim>\<open>humanize\<close> is a namespace of attributes. An attribute is a function
  (of the value and the keyword options) or something that cannot be called, such as the
  submodule \<^verbatim>\<open>i18n\<close> that \<^verbatim>\<open>__set_locale\<close> reaches through.
\<close>

type_synonym kwargs = "(string \<times> pyval) list"

datatype attr =
    Callable "pyval \<Rightarrow> kwargs \<Rightarrow> exn + pyval"
  | NonCallable

type_synonym namespace = "string \<rightharpoonup> attr"

definition getattr :: "namespace \<Rightarrow> string \<Rightarrow> exn + attr" where
  "getattr ns name = (case ns name of None \<Rightarrow> Inl (AttributeError name) | Some a \<Rightarrow> Inr a)"

fun call :: "attr \<Rightarrow> pyval \<Rightarrow> kwargs \<Rightarrow> exn + pyval" where
  "call (Callable f) v kw = f v kw"
| "call NonCallable v kw = Inl (TypeError ''object is not callable'')"

fun names_function :: "namespace \<Rightarrow> string \<Rightarrow> bool" where
  "names_function ns name = (case ns name of Some (Callable _) \<Rightarrow> True | _ \<Rightarrow> False)"

definition unknown_function :: "string \<Rightarrow> exn" where
  "unknown_function fname =
     Exception (''Humanize module does not contains function '' @ quoted fname)"

definition execution_failed :: "string \<Rightarrow> exn" where
  "execution_failed fname =
     ValueError (''An error occured during execution function '' @ quoted fname)"

text \<open>
  \<^verbatim>\<open>__humanize\<close>: the lookup guarded by \<^verbatim>\<open>except AttributeError\<close>, the call
  guarded by \<^verbatim>\<open>except Exception\<close> (anything that is not an instance of
  \<^verbatim>\<open>Exception\<close> passes through), the coercion outside both guards.
\<close>

definition humanize :: "namespace \<Rightarrow> pyval \<Rightarrow> string \<Rightarrow> kwargs \<Rightarrow> exn + pyval" where
  "humanize ns v fname kw =
     (case getattr ns fname of
        Inl (AttributeError _) \<Rightarrow> Inl (unknown_function fname)
      | Inl e \<Rightarrow> Inl e
      | Inr method \<Rightarrow>
          (case (if kw \<noteq> [] then call method v kw else call method v []) of
             Inl e \<Rightarrow> if is_Exception e then Inl (execution_failed fname) else Inl e
           | Inr v' \<Rightarrow> force_unicode v'))"

text \<open>The filter's default for the function name.\<close>

definition humanize_default :: "namespace \<Rightarrow> pyval \<Rightarrow> exn + pyval" where
  "humanize_default ns v = humanize ns v ''naturaltime'' []"

subsection \<open>Sample hosts and a sample library\<close>

text \<open>
  Concrete inputs at which the properties below are evaluated: a host with Babel active and
  \<^verbatim>\<open>BABEL_DEFAULT_LOCALE = 'fr'\<close>, a host object with no \<^verbatim>\<open>extensions\<close> attribute,
  a host whose caller set \<^verbatim>\<open>HUMANIZE_DEFAULT_LOCALE = 'de'\<close>, and a host with Babel
  registered but no \<^verbatim>\<open>BABEL_DEFAULT_LOCALE\<close> key.
\<close>

definition babel_app :: app where
  "babel_app =
     \<lparr>config = [''BABEL_DEFAULT_LOCALE'' \<mapsto> str ''fr''],
      extensions = Some [''babel'' \<mapsto> PObj 7],
      template_filters = Map.empty,
      before_request_funcs = []\<rparr>"

definition bare_app :: app where
  "bare_app =
     \<lparr>config = Map.empty,
      extensions = None,
      template_filters = Map.empty,
      before_request_funcs = []\<rparr>"

definition user_app :: app where
  "user_app =
     \<lparr>config = [''HUMANIZE_DEFAULT_LOCALE'' \<mapsto> str ''de'',
                ''BABEL_DEFAULT_LOCALE'' \<mapsto> str ''fr''],
      extensions = Some [''babel'' \<mapsto> PObj 7],
      template_filters = Map.empty,
      before_request_funcs = []\<rparr>"

definition babel_unconfigured_app :: app where
  "babel_unconfigured_app =
     \<lparr>config = Map.empty,
      extensions = Some [''babel'' \<mapsto> PObj 7],
      template_filters = Map.empty,
      before_request_funcs = []\<rparr>"

text \<open>
  A stand-in for the library module, with the three kinds of attribute the filter can meet:
  a function that raises on a value it cannot convert, a function that hands back what it
  cannot parse (and answers an integer with UTF-8 bytes), and the submodule \<^verbatim>\<open>i18n\<close>.
\<close>

fun naturalsize_sample :: "pyval \<Rightarrow> kwargs \<Rightarrow> exn + pyval" where
  "naturalsize_sample (PInt n) kw = Inr (str ''1.0 kB'')"
| "naturalsize_sample v kw = Inl (ValueError ''could not convert string to float'')"

fun naturaltime_sample :: "pyval \<Rightarrow> kwargs \<Rightarrow> exn + pyval" where
  "naturaltime_sample (PInt n) kw =
     Inr (PBytes [0x69, 0x6C, 0x20, 0x79, 0x20, 0x61, 0x20, 0xC3, 0xA9])"
| "naturaltime_sample v kw = Inr v"

definition sample_module :: namespace where
  "sample_module =
     [''naturalsize'' \<mapsto> Callable naturalsize_sample,
      ''naturaltime'' \<mapsto> Callable naturaltime_sample,
      ''i18n'' \<mapsto> NonCallable]"

text \<open>The same library when the process is interrupted while \<^verbatim>\<open>naturalsize\<close> runs.\<close>

fun naturalsize_interrupted :: "pyval \<Rightarrow> kwargs \<Rightarrow> exn + pyval" where
  "naturalsize_interrupted v kw = Inl KeyboardInterrupt"

definition interrupted_module :: namespace where
  "interrupted_module = sample_module(''naturalsize'' \<mapsto> Callable naturalsize_interrupted)"

section \<open>Properties\<close>

subsection \<open>Dictionary and coercion lemmas\<close>

lemma self_name_default_locale: "self_name ''default_locale'' = ''HUMANIZE_DEFAULT_LOCALE''"
  by code_simp

lemma setdefault_keeps: "d k = Some v \<Longrightarrow> setdefault d k' w k = Some v"
  by (auto simp: setdefault_def split: option.splits)

lemma force_unicode_text: "force_unicode (PText t) = Inr (PText t)"
  by (simp add: force_unicode_def)

lemma force_unicode_bytes:
  "force_unicode (PBytes b) =
     (case utf8_decode b of None \<Rightarrow> Inl UnicodeDecodeError | Some t \<Rightarrow> Inr (PText t))"
  by (simp add: force_unicode_def)

lemma force_unicode_bytearray:
  "force_unicode (PByteArray b) =
     (case utf8_decode b of None \<Rightarrow> Inl UnicodeDecodeError | Some t \<Rightarrow> Inr (PText t))"
  by (simp add: force_unicode_def)

lemma force_unicode_other:
  "\<not> is_text r \<Longrightarrow> \<not> has_decode r \<Longrightarrow> force_unicode r = Inl (AttributeError ''decode'')"
  by (cases r) (simp_all add: force_unicode_def)

lemma force_unicode_returns_text: "force_unicode r = Inr r' \<Longrightarrow> is_text r'"
  by (cases r) (auto simp: force_unicode_def split: option.splits)

subsection \<open>Registration\<close>

text \<open>
  What \<^verbatim>\<open>init_app\<close> does to the config store and the registry, for any host: a key
  that is present keeps its value; an absent \<^verbatim>\<open>HUMANIZE_DEFAULT_LOCALE\<close> becomes
  \<^verbatim>\<open>'en'\<close> whatever Babel is configured with; when the call returns, the registry holds
  the adapter under \<^verbatim>\<open>humanize\<close> and both hooks are registered; without an
  \<^verbatim>\<open>extensions\<close> attribute the call raises.
\<close>

lemma init_app_keeps_present:
  assumes "config a k = Some v"
  shows "config (snd (init_app self a)) k = Some v"
  using assms
  by (auto simp: init_app_def Let_def default_config_def self_name_default_locale
        app_has_babel_def getitem_def setdefault_keeps
      split: sum.splits option.splits if_splits)

lemma init_app_absent_gives_en:
  assumes "config a ''HUMANIZE_DEFAULT_LOCALE'' = None"
  shows "config (snd (init_app self a)) ''HUMANIZE_DEFAULT_LOCALE'' = Some (str ''en'')"
  using assms
  by (auto simp: init_app_def Let_def default_config_def self_name_default_locale
        app_has_babel_def getitem_def setdefault_def
      split: sum.splits option.splits if_splits)

lemma init_app_registers:
  assumes "fst (init_app self a) = Inr ()"
  shows "\<exists>reg. extensions (snd (init_app self a)) = Some reg
           \<and> reg ''humanize'' = Some (PObj self)"
  using assms
  by (auto simp: init_app_def Let_def split: sum.splits option.splits if_splits)

lemma init_app_hooks:
  assumes "fst (init_app self a) = Inr ()"
  shows "template_filters (snd (init_app self a)) ''humanize'' = Some (Humanize_filter self)
         \<and> before_request_funcs (snd (init_app self a))
             = before_request_funcs a @ [Set_locale_hook self]"
  using assms
  by (auto simp: init_app_def Let_def app_has_babel_def getitem_def
      split: sum.splits option.splits if_splits)

lemma init_app_no_extensions:
  "extensions a = None \<Longrightarrow> fst (init_app self a) = Inl (AttributeError ''extensions'')"
  by (simp add: init_app_def Let_def app_has_babel_def)

lemma init_app_babel_locale_none:
  "extensions a = Some reg \<Longrightarrow> config a ''BABEL_DEFAULT_LOCALE'' = Some PNone \<Longrightarrow>
     fst (init_app self a) = Inr ()"
  by (simp add: init_app_def Let_def default_config_def self_name_default_locale
      app_has_babel_def getitem_def setdefault_def split: option.splits)

text \<open>
  C1. The claim: with \<^verbatim>\<open>HUMANIZE_DEFAULT_LOCALE\<close> not set by the caller, Babel active and
  \<^verbatim>\<open>BABEL_DEFAULT_LOCALE\<close> not \<^verbatim>\<open>None\<close>, the config holds Babel's default locale
  after \<^verbatim>\<open>init_app\<close>. The code does otherwise: the loop over \<^verbatim>\<open>default_config\<close> has
  already stored \<^verbatim>\<open>'en'\<close> under the key, so the second \<^verbatim>\<open>setdefault\<close> finds it present
  and writes nothing. On the host \<open>babel_app\<close> (Babel registered, default locale
  \<^verbatim>\<open>'fr'\<close>, no humanize key) registration returns and the key holds \<^verbatim>\<open>'en'\<close>, not
  \<^verbatim>\<open>'fr'\<close>.
\<close>

theorem init_app_ignores_babel_default:
  "config babel_app ''HUMANIZE_DEFAULT_LOCALE'' = None
   \<and> app_has_babel babel_app = Inr True
   \<and> config babel_app ''BABEL_DEFAULT_LOCALE'' = Some (str ''fr'')
   \<and> fst (init_app 1 babel_app) = Inr ()
   \<and> config (snd (init_app 1 babel_app)) ''HUMANIZE_DEFAULT_LOCALE'' = Some (str ''en'')
   \<and> str ''en'' \<noteq> str ''fr''"
  by (simp add: babel_app_def init_app_def Let_def default_config_def
      self_name_default_locale app_has_babel_def getitem_def setdefault_def str_def)

text \<open>
  C6. A \<^verbatim>\<open>HUMANIZE_DEFAULT_LOCALE\<close> that the caller has set survives any number of
  registrations, by any adapters, whether or not they return: after \<open>init_apps selfs\<close>
  the key still holds the caller's value.
\<close>

theorem init_apps_keeps_user_locale:
  "config a ''HUMANIZE_DEFAULT_LOCALE'' = Some v \<Longrightarrow>
     config (init_apps selfs a) ''HUMANIZE_DEFAULT_LOCALE'' = Some v"
proof (induction selfs arbitrary: a)
  case Nil
  then show ?case by simp
next
  case (Cons self selfs)
  from Cons.prems have "config (snd (init_app self a)) ''HUMANIZE_DEFAULT_LOCALE'' = Some v"
    by (rule init_app_keeps_present)
  then show ?case
    using Cons.IH by simp
qed

text \<open>
  At \<open>user_app\<close> (the caller set \<^verbatim>\<open>'de'\<close>, Babel says \<^verbatim>\<open>'fr'\<close>): registration
  returns, and after two registrations the key still holds \<^verbatim>\<open>'de'\<close>.
\<close>

theorem init_apps_keeps_user_locale_witness:
  "config user_app ''HUMANIZE_DEFAULT_LOCALE'' = Some (str ''de'')
   \<and> fst (init_app 1 user_app) = Inr ()
   \<and> config (init_apps [1, 1] user_app) ''HUMANIZE_DEFAULT_LOCALE'' = Some (str ''de'')"
proof -
  have h: "config user_app ''HUMANIZE_DEFAULT_LOCALE'' = Some (str ''de'')"
    by (simp add: user_app_def)
  have ok: "fst (init_app 1 user_app) = Inr ()"
    by (simp add: user_app_def init_app_def Let_def default_config_def
        self_name_default_locale app_has_babel_def getitem_def setdefault_def str_def)
  show ?thesis
    using h ok init_apps_keeps_user_locale [of user_app "str ''de''" "[1, 1]"]
    by simp
qed

text \<open>
  C8. The claim: after \<^verbatim>\<open>init_app\<close> the registry maps \<^verbatim>\<open>humanize\<close> to the adapter, and
  registration succeeds on a host that has no registry yet. The second half fails on the
  code: \<^verbatim>\<open>app_has_babel\<close> reads \<^verbatim>\<open>app.extensions\<close> before the \<^verbatim>\<open>hasattr\<close> guard
  that would create it. On \<open>bare_app\<close> (no \<^verbatim>\<open>extensions\<close> attribute) the call raises
  \<^verbatim>\<open>AttributeError\<close> and no registry is created. (Lemma \<open>init_app_registers\<close> is the
  first half, for every call that returns.)
\<close>

theorem init_app_without_registry_raises:
  "extensions bare_app = None
   \<and> fst (init_app 1 bare_app) = Inl (AttributeError ''extensions'')
   \<and> extensions (snd (init_app 1 bare_app)) = None"
  by (simp add: bare_app_def init_app_def Let_def app_has_babel_def)

text \<open>
  C9. With a non-\<^verbatim>\<open>None\<close> entry under \<^verbatim>\<open>babel\<close> in the registry and no
  \<^verbatim>\<open>BABEL_DEFAULT_LOCALE\<close> key in the config store, \<^verbatim>\<open>init_app\<close> raises
  \<^verbatim>\<open>KeyError\<close> for that key. (A key that is present with the value \<^verbatim>\<open>None\<close> is
  tolerated: lemma \<open>init_app_babel_locale_none\<close>.)
\<close>

theorem init_app_babel_missing_key:
  "extensions a = Some reg \<Longrightarrow> reg ''babel'' = Some obj \<Longrightarrow> obj \<noteq> PNone \<Longrightarrow>
   config a ''BABEL_DEFAULT_LOCALE'' = None \<Longrightarrow>
     fst (init_app self a) = Inl (KeyError ''BABEL_DEFAULT_LOCALE'')"
  by (simp add: init_app_def Let_def default_config_def self_name_default_locale
      app_has_babel_def getitem_def setdefault_def split: option.splits)

text \<open>At \<open>babel_unconfigured_app\<close>: Babel registered, empty config store.\<close>

theorem init_app_babel_missing_key_witness:
  "extensions babel_unconfigured_app = Some [''babel'' \<mapsto> PObj 7]
   \<and> config babel_unconfigured_app ''BABEL_DEFAULT_LOCALE'' = None
   \<and> fst (init_app 1 babel_unconfigured_app) = Inl (KeyError ''BABEL_DEFAULT_LOCALE'')"
proof -
  have e: "extensions babel_unconfigured_app = Some [''babel'' \<mapsto> PObj 7]"
    and c: "config babel_unconfigured_app ''BABEL_DEFAULT_LOCALE'' = None"
    by (simp_all add: babel_unconfigured_app_def)
  show ?thesis
    using e c init_app_babel_missing_key
      [of babel_unconfigured_app "[''babel'' \<mapsto> PObj 7]" "PObj 7" 1]
    by simp
qed

subsection \<open>Locale selection\<close>

text \<open>
  C7. \<^verbatim>\<open>localeselector\<close> returns the callable it was given, stores it as the adapter's
  selector, and a second registration replaces the first: only the last callable is
  stored.
\<close>

theorem localeselector_returns_and_replaces:
  "fst (localeselector self f) = f
   \<and> locale_selector_func (snd (localeselector self f)) = Some f
   \<and> locale_selector_func (snd (localeselector (snd (localeselector self g)) f)) = Some f"
  by (simp add: localeselector_def)

lemma set_locale_selector_raises:
  "locale_selector_func self = Some func \<Longrightarrow> func req = Inl e \<Longrightarrow>
     set_locale activate self current_app req lib = Inl e"
  by (simp add: set_locale_def)

lemma set_locale_default_missing:
  "locale_selector_func self = None \<Longrightarrow>
   config current_app ''HUMANIZE_DEFAULT_LOCALE'' = None \<Longrightarrow>
     set_locale activate self current_app req lib = Inl (KeyError ''HUMANIZE_DEFAULT_LOCALE'')"
  by (simp add: set_locale_def default_locale_def getitem_def)

text \<open>
  C2. \<^verbatim>\<open>__set_locale\<close> activates, in the library, the locale resolved as follows: with no
  selector registered, the configured default (the value \<open>d\<close> under
  \<^verbatim>\<open>HUMANIZE_DEFAULT_LOCALE\<close>); with a selector that returns \<^verbatim>\<open>None\<close>, again the
  configured default; with a selector that returns anything else, what it returned.
\<close>

theorem set_locale_resolution:
  "(locale_selector_func self = None \<longrightarrow>
      config current_app ''HUMANIZE_DEFAULT_LOCALE'' = Some d \<longrightarrow>
      set_locale activate self current_app req lib = activate d lib)
   \<and> (locale_selector_func self = Some func \<longrightarrow> func req = Inr PNone \<longrightarrow>
      config current_app ''HUMANIZE_DEFAULT_LOCALE'' = Some d \<longrightarrow>
      set_locale activate self current_app req lib = activate d lib)
   \<and> (locale_selector_func self = Some func \<longrightarrow> func req = Inr locale \<longrightarrow>
      locale \<noteq> PNone \<longrightarrow>
      set_locale activate self current_app req lib = activate locale lib)"
  by (simp add: set_locale_def default_locale_def getitem_def)

text \<open>
  On \<open>user_app\<close> (default \<^verbatim>\<open>'de'\<close>), with a library whose state is its active locale:
  a fresh adapter activates \<^verbatim>\<open>'de'\<close>, so does one whose selector returns
  \<^verbatim>\<open>None\<close>, and one whose selector returns \<^verbatim>\<open>'fr_FR'\<close> activates \<^verbatim>\<open>'fr_FR'\<close>.
\<close>

theorem set_locale_resolution_witness:
  "set_locale (\<lambda>l _. Inr l) (new_adapter :: unit adapter) user_app () PNone = Inr (str ''de'')
   \<and> set_locale (\<lambda>l _. Inr l) (snd (localeselector new_adapter (\<lambda>_. Inr PNone))) user_app ()
        PNone = Inr (str ''de'')
   \<and> set_locale (\<lambda>l _. Inr l)
        (snd (localeselector new_adapter (\<lambda>_. Inr (str ''fr_FR'')))) user_app () PNone
        = Inr (str ''fr_FR'')"
proof -
  let ?act = "\<lambda>(l::pyval) (_::pyval). (Inr l :: exn + pyval)"
  have cfg: "config user_app ''HUMANIZE_DEFAULT_LOCALE'' = Some (str ''de'')"
    by (simp add: user_app_def)
  have ne: "str ''fr_FR'' \<noteq> PNone"
    by (simp add: str_def)
  have a: "set_locale ?act (new_adapter :: unit adapter) user_app () PNone = Inr (str ''de'')"
    using set_locale_resolution
      [of "new_adapter :: unit adapter" user_app "str ''de''" ?act "()" PNone] cfg
    by (simp add: new_adapter_def)
  have b: "set_locale ?act (snd (localeselector new_adapter (\<lambda>_. Inr PNone))) user_app () PNone
        = Inr (str ''de'')"
    using set_locale_resolution
      [of "snd (localeselector new_adapter (\<lambda>_. Inr PNone))" user_app "str ''de''" ?act "()"
        PNone "\<lambda>_. Inr PNone"] cfg
    by (simp add: localeselector_def)
  have c: "set_locale ?act (snd (localeselector new_adapter (\<lambda>_. Inr (str ''fr_FR''))))
        user_app () PNone = Inr (str ''fr_FR'')"
    using set_locale_resolution
      [of "snd (localeselector new_adapter (\<lambda>_. Inr (str ''fr_FR'')))" user_app _ ?act "()"
        PNone "\<lambda>_. Inr (str ''fr_FR'')" "str ''fr_FR''"] ne
    by (simp add: localeselector_def)
  from a b c show ?thesis by simp
qed

subsection \<open>The template filter\<close>

lemma humanize_call_returns:
  "ns fname = Some (Callable f) \<Longrightarrow> f v kw = Inr r \<Longrightarrow>
     humanize ns v fname kw = force_unicode r"
  by (cases "kw = []") (simp_all add: humanize_def getattr_def)

lemma humanize_returns_text:
  assumes "humanize ns v fname kw = Inr r'"
  shows "is_text r'"
proof (cases "ns fname")
  case None
  with assms show ?thesis
    by (simp add: humanize_def getattr_def)
next
  case (Some a)
  with assms obtain r where "force_unicode r = Inr r'"
    by (auto simp: humanize_def getattr_def split: sum.splits if_splits)
  then show ?thesis
    by (rule force_unicode_returns_text)
qed

lemma humanize_noncallable:
  "ns fname = Some NonCallable \<Longrightarrow> humanize ns v fname kw = Inl (execution_failed fname)"
  by (simp add: humanize_def getattr_def)

lemma humanize_call_escapes:
  "ns fname = Some (Callable f) \<Longrightarrow> f v kw = Inl e \<Longrightarrow> \<not> is_Exception e \<Longrightarrow>
     humanize ns v fname kw = Inl e"
  by (cases "kw = []") (simp_all add: humanize_def getattr_def)

lemma humanize_undecodable_bytes:
  "ns fname = Some (Callable f) \<Longrightarrow> f v kw = Inr (PBytes b) \<Longrightarrow> utf8_decode b = None \<Longrightarrow>
     humanize ns v fname kw = Inl UnicodeDecodeError"
  by (simp add: humanize_call_returns force_unicode_bytes)

text \<open>
  C3, as stated: for every name that does not name a function of the library, the filter
  raises the unknown-function error. It fails at the name \<^verbatim>\<open>i18n\<close>: the library has
  that attribute (the submodule \<^verbatim>\<open>__set_locale\<close> calls into), it is not a function,
  \<^verbatim>\<open>getattr\<close> succeeds, the call raises \<^verbatim>\<open>TypeError\<close>, and the filter raises the
  execution-failed \<^verbatim>\<open>ValueError\<close> instead.
\<close>

theorem humanize_noncallable_counterexample:
  "\<not> names_function sample_module ''i18n''
   \<and> humanize sample_module (PInt 3600) ''i18n'' []
       = Inl (ValueError (''An error occured during execution function '' @ quoted ''i18n''))
   \<and> humanize sample_module (PInt 3600) ''i18n'' [] \<noteq> Inl (unknown_function ''i18n'')"
  by (simp add: sample_module_def humanize_def getattr_def unknown_function_def
      execution_failed_def)

text \<open>
  C3, amended: for every value, every keyword options and every name that is not an
  attribute of the library module at all, the filter raises the unknown-function error,
  an \<^verbatim>\<open>Exception\<close> whose message carries the name, and returns no value.
\<close>

theorem humanize_unknown_name:
  "ns fname = None \<Longrightarrow> humanize ns v fname kw = Inl (unknown_function fname)"
  by (simp add: humanize_def getattr_def)

theorem humanize_unknown_name_witness:
  "sample_module ''not_a_real_function'' = None
   \<and> humanize sample_module (PInt 3600) ''not_a_real_function'' []
       = Inl (Exception (''Humanize module does not contains function ''
             @ [CHR 0x27] @ ''not_a_real_function'' @ [CHR 0x27]))"
proof -
  have h: "sample_module ''not_a_real_function'' = None"
    by (simp add: sample_module_def)
  show ?thesis
    using h humanize_unknown_name [of sample_module "''not_a_real_function''" "PInt 3600" "[]"]
    by (simp add: unknown_function_def quoted_def)
qed

text \<open>
  C4, as stated: whenever the resolved function raises any exception, the filter raises
  the execution-failed \<^verbatim>\<open>ValueError\<close> and the original does not escape. It fails
  when what the call raises is not an instance of \<^verbatim>\<open>Exception\<close>: a
  \<^verbatim>\<open>KeyboardInterrupt\<close> raised while \<^verbatim>\<open>naturalsize\<close> runs is not caught by
  \<^verbatim>\<open>except Exception\<close> and leaves the filter as it is.
\<close>

theorem humanize_interrupt_counterexample:
  "names_function interrupted_module ''naturalsize''
   \<and> naturalsize_interrupted (PInt 1024) [] = Inl KeyboardInterrupt
   \<and> humanize interrupted_module (PInt 1024) ''naturalsize'' [] = Inl KeyboardInterrupt
   \<and> humanize interrupted_module (PInt 1024) ''naturalsize'' []
       \<noteq> Inl (execution_failed ''naturalsize'')"
  by (simp add: interrupted_module_def humanize_def getattr_def execution_failed_def)

text \<open>
  C4, amended: when the name resolves to a function of the library and calling it (with
  the keyword options, if any) raises an exception \<open>e\<close> that is an instance of
  \<^verbatim>\<open>Exception\<close>, the filter raises a \<^verbatim>\<open>ValueError\<close> whose message is the fixed
  text followed by the function name in quotes; the result does not depend on \<open>e\<close>,
  which is dropped.
\<close>

theorem humanize_call_raises:
  "ns fname = Some (Callable f) \<Longrightarrow> f v kw = Inl e \<Longrightarrow> is_Exception e \<Longrightarrow>
     humanize ns v fname kw
       = Inl (ValueError (''An error occured during execution function ''
               @ [CHR 0x27] @ fname @ [CHR 0x27]))"
  by (cases "kw = []")
    (simp_all add: humanize_def getattr_def execution_failed_def quoted_def)

text \<open>\<^verbatim>\<open>naturalsize\<close> on the text \<^verbatim>\<open>'abc'\<close>: the function's own error is replaced.\<close>

theorem humanize_call_raises_witness:
  "sample_module ''naturalsize'' = Some (Callable naturalsize_sample)
   \<and> naturalsize_sample (str ''abc'') [] = Inl (ValueError ''could not convert string to float'')
   \<and> is_Exception (ValueError ''could not convert string to float'')
   \<and> humanize sample_module (str ''abc'') ''naturalsize'' []
       = Inl (ValueError (''An error occured during execution function ''
             @ [CHR 0x27] @ ''naturalsize'' @ [CHR 0x27]))"
proof -
  have h1: "sample_module ''naturalsize'' = Some (Callable naturalsize_sample)"
    by (simp add: sample_module_def)
  have h2: "naturalsize_sample (str ''abc'') []
              = Inl (ValueError ''could not convert string to float'')"
    by (simp add: str_def)
  have h3: "is_Exception (ValueError ''could not convert string to float'')"
    by simp
  show ?thesis
    using h1 h2 h3
      humanize_call_raises
        [of sample_module "''naturalsize''" naturalsize_sample "str ''abc''" "[]"
          "ValueError ''could not convert string to float''"]
    by simp
qed

text \<open>
  C5. For a name that resolves to a function whose call returns: a text result is returned
  unchanged; a byte-string result is returned as the text its UTF-8 decoding gives; and
  whatever the filter returns, for any input, is text and not a byte string.
\<close>

theorem humanize_coerces_to_text:
  "(ns fname = Some (Callable f) \<longrightarrow> f v kw = Inr (PText t) \<longrightarrow>
      humanize ns v fname kw = Inr (PText t))
   \<and> (ns fname = Some (Callable f) \<longrightarrow> f v kw = Inr (PBytes b) \<longrightarrow>
      utf8_decode b = Some t \<longrightarrow> humanize ns v fname kw = Inr (PText t))
   \<and> (humanize ns v fname kw = Inr r \<longrightarrow> is_text r \<and> \<not> is_bytes r)"
proof (intro conjI impI)
  assume "ns fname = Some (Callable f)" and "f v kw = Inr (PText t)"
  then show "humanize ns v fname kw = Inr (PText t)"
    by (simp add: humanize_call_returns force_unicode_text)
next
  assume "ns fname = Some (Callable f)" and "f v kw = Inr (PBytes b)"
    and "utf8_decode b = Some t"
  then show "humanize ns v fname kw = Inr (PText t)"
    by (simp add: humanize_call_returns force_unicode_bytes)
next
  assume "humanize ns v fname kw = Inr r"
  then show "is_text r" by (rule humanize_returns_text)
  then show "\<not> is_bytes r" by (cases r) simp_all
qed

text \<open>
  \<^verbatim>\<open>naturalsize\<close> of 1024 gives its text back; \<^verbatim>\<open>naturaltime\<close> of 3 with a keyword
  option answers with the UTF-8 bytes of \<^verbatim>\<open>il y a\<close> followed by U+00E9, which come
  back as that text.
\<close>

theorem humanize_coerces_to_text_witness:
  "humanize sample_module (PInt 1024) ''naturalsize'' [] = Inr (str ''1.0 kB'')
   \<and> humanize sample_module (PInt 3) ''naturaltime'' [(''months'', PInt 0)]
       = Inr (PText [0x69, 0x6C, 0x20, 0x79, 0x20, 0x61, 0x20, 0xE9])
   \<and> is_text (str ''1.0 kB'')"
proof -
  let ?b = "[0x69, 0x6C, 0x20, 0x79, 0x20, 0x61, 0x20, 0xC3, 0xA9] :: 8 word list"
  let ?t = "[0x69, 0x6C, 0x20, 0x79, 0x20, 0x61, 0x20, 0xE9] :: nat list"
  let ?kw = "[(''months'', PInt 0)]"
  have s: "sample_module ''naturalsize'' = Some (Callable naturalsize_sample)"
    and n: "sample_module ''naturaltime'' = Some (Callable naturaltime_sample)"
    by (simp_all add: sample_module_def)
  have d: "utf8_decode ?b = Some ?t"
    by code_simp
  have a: "humanize sample_module (PInt 1024) ''naturalsize'' [] = Inr (str ''1.0 kB'')"
    using s humanize_coerces_to_text
      [of sample_module "''naturalsize''" naturalsize_sample "PInt 1024" "[]"
        "map of_char ''1.0 kB''"]
    by (simp add: str_def)
  have b: "humanize sample_module (PInt 3) ''naturaltime'' ?kw = Inr (PText ?t)"
    using n d humanize_coerces_to_text
      [of sample_module "''naturaltime''" naturaltime_sample "PInt 3" ?kw ?t ?b]
    by simp
  have c: "is_text (str ''1.0 kB'')"
    using a humanize_coerces_to_text
      [of sample_module "''naturalsize''" _ "PInt 1024" "[]" _ _ "str ''1.0 kB''"]
    by simp
  from a b c show ?thesis by simp
qed

text \<open>
  C10, as stated: every result that is neither text nor a byte string makes the filter
  raise. It fails for a \<^verbatim>\<open>bytearray\<close>: it is not text and not \<^verbatim>\<open>bytes\<close>, but
  it has a \<^verbatim>\<open>decode\<close> method, so \<^verbatim>\<open>force_unicode\<close> decodes it and the filter
  returns text. Here \<^verbatim>\<open>naturaltime\<close> hands back the byte array \<^verbatim>\<open>hi\<close> it was given.
\<close>

theorem humanize_bytearray_counterexample:
  "sample_module ''naturaltime'' = Some (Callable naturaltime_sample)
   \<and> naturaltime_sample (PByteArray [0x68, 0x69]) [] = Inr (PByteArray [0x68, 0x69])
   \<and> \<not> is_text (PByteArray [0x68, 0x69])
   \<and> \<not> is_bytes (PByteArray [0x68, 0x69])
   \<and> humanize sample_module (PByteArray [0x68, 0x69]) ''naturaltime'' []
       = Inr (PText [0x68, 0x69])"
proof -
  have d: "utf8_decode [0x68, 0x69] = Some [0x68, 0x69]"
    by code_simp
  have n: "sample_module ''naturaltime'' = Some (Callable naturaltime_sample)"
    by (simp add: sample_module_def)
  have r: "naturaltime_sample (PByteArray [0x68, 0x69]) [] = Inr (PByteArray [0x68, 0x69])"
    by simp
  have "humanize sample_module (PByteArray [0x68, 0x69]) ''naturaltime'' []
          = force_unicode (PByteArray [0x68, 0x69])"
    using n r by (rule humanize_call_returns)
  with d n show ?thesis
    by (simp add: force_unicode_bytearray)
qed

text \<open>
  C10, amended: when the name resolves to a function whose call returns a value that is
  not text and has no \<^verbatim>\<open>decode\<close> attribute (\<^verbatim>\<open>None\<close>, an integer, an opaque
  object), the filter raises the \<^verbatim>\<open>AttributeError\<close> of the failed \<^verbatim>\<open>decode\<close>
  lookup as it is: the coercion stands after both \<^verbatim>\<open>try\<close> blocks, so the error is
  neither the unknown-function \<^verbatim>\<open>Exception\<close> nor the execution-failed
  \<^verbatim>\<open>ValueError\<close>, whatever their messages.
\<close>

theorem humanize_coercion_failure_propagates:
  "ns fname = Some (Callable f) \<Longrightarrow> f v kw = Inr r \<Longrightarrow> \<not> is_text r \<Longrightarrow> \<not> has_decode r \<Longrightarrow>
     humanize ns v fname kw = Inl (AttributeError ''decode'')
     \<and> (\<forall>m. humanize ns v fname kw \<noteq> Inl (Exception m))
     \<and> (\<forall>m. humanize ns v fname kw \<noteq> Inl (ValueError m))"
  by (simp add: humanize_call_returns force_unicode_other)

text \<open>
  \<^verbatim>\<open>naturaltime\<close> hands \<^verbatim>\<open>None\<close> back, and the filter (here with its default function
  name too) raises the \<^verbatim>\<open>AttributeError\<close>.
\<close>

theorem humanize_coercion_failure_propagates_witness:
  "sample_module ''naturaltime'' = Some (Callable naturaltime_sample)
   \<and> naturaltime_sample PNone [] = Inr PNone
   \<and> \<not> is_text PNone \<and> \<not> has_decode PNone
   \<and> humanize sample_module PNone ''naturaltime'' [] = Inl (AttributeError ''decode'')
   \<and> humanize_default sample_module PNone = Inl (AttributeError ''decode'')"
proof -
  have n: "sample_module ''naturaltime'' = Some (Callable naturaltime_sample)"
    by (simp add: sample_module_def)
  have r: "naturaltime_sample PNone [] = Inr PNone"
    by simp
  show ?thesis
    using n r humanize_coercion_failure_propagates
      [of sample_module "''naturaltime''" naturaltime_sample PNone "[]" PNone]
    by (simp add: humanize_default_def)
qed

end
